theory Spec2Isabelle
  imports Complex_Main "HOL-Library.Word" "HOL-Library.Sublist" "HOL-Library.Char_ord"
    "HOL-Library.List_Lexorder"
begin

section \<open>Budget Automator: the pipeline of \<open>budget_automator.py\<close>\<close>

text \<open>
  The script reads a table of transactions, renames its columns, parses dates and amounts,
  labels every row with a category and a type, optionally keeps one month, and sums up.
  The embedding follows the script function by function. Three conventions:

  \<^item> A Python \<open>str\<close> is a \<open>string\<close> whose characters are read as code points below 256
    (Latin-1); \<open>lower\<close> and \<open>strip\<close> are the restrictions of \<open>str.lower\<close> and
    \<open>str.strip\<close> to these code points.
  \<^item> An amount of the pipeline is a rational number: the value of a \<open>float64\<close> entry,
    with the arithmetic on it exact (no rounding, infinities or signed zeros). A column of
    whole numbers is \<open>int64\<close> in pandas (\<open>uint64\<close> when some are too large for that),
    and the script's arithmetic on it wraps around. The steps that do arithmetic on the
    column, the inversion and the totals, are therefore polymorphic in the type of the
    amounts, and are read at \<open>64 word\<close> as well as at \<open>rat\<close>.
  \<^item> The pandas functions the script calls on raw cells (\<open>to_datetime\<close>,
    \<open>to_numeric\<close>, \<open>astype(str)\<close>) and \<open>sort_values\<close> are parameters, collected in the record
    \<open>pandas\<close>; the type \<open>'c\<close> of a raw cell is left open. Reading the files and
    writing the reports are outside the model: a run takes the loaded table and rule set
    and returns either the error that ends it or the values the reports are written from.
\<close>

subsection \<open>Strings\<close>

definition lower_char :: "char \<Rightarrow> char" where
  "lower_char c =
     (let n = (of_char c :: nat)
      in if (65 \<le> n \<and> n \<le> 90) \<or> (192 \<le> n \<and> n \<le> 222 \<and> n \<noteq> 215)
         then char_of (n + 32) else c)"

definition lower :: "string \<Rightarrow> string" where
  "lower s = map lower_char s"

definition is_space :: "char \<Rightarrow> bool" where
  "is_space c =
     (let n = (of_char c :: nat)
      in (9 \<le> n \<and> n \<le> 13) \<or> (28 \<le> n \<and> n \<le> 32) \<or> n = 133 \<or> n = 160)"

definition strip :: "string \<Rightarrow> string" where
  "strip s = rev (dropWhile is_space (rev (dropWhile is_space s)))"

definition is_upper_ascii :: "char \<Rightarrow> bool" where
  "is_upper_ascii c = (65 \<le> (of_char c :: nat) \<and> (of_char c :: nat) \<le> 90)"

text \<open>Python's \<open>kw in d\<close> on strings: \<open>kw\<close> starts at some position of \<open>d\<close>.\<close>

fun str_in :: "string \<Rightarrow> string \<Rightarrow> bool" where
  "str_in kw [] = (kw = [])"
| "str_in kw (c # cs) = (prefix kw (c # cs) \<or> str_in kw cs)"

subsection \<open>Errors\<close>

text \<open>
  \<open>SystemExit msg\<close> is the script's own \<open>raise SystemExit(msg)\<close>. \<open>Uncaught e\<close> is an
  exception that nothing catches: the interpreter prints the traceback and exits. Both end
  the process with status 1.
\<close>

datatype exn = ValueError | AttributeError | TypeError | ZeroDivisionError

datatype error = SystemExit string | Uncaught exn

subsection \<open>Tables and \<open>normalize_columns\<close>\<close>

text \<open>
  A data frame is the list of its columns in order, each a label with its cells. Labels
  may repeat, as they may in pandas. All columns of a data frame have one length.
\<close>

type_synonym 'c frame = "(string \<times> 'c list) list"

definition need :: "string list" where
  "need = [''date'', ''description'', ''amount'']"

definition alias_tbl :: "(string \<times> string) list" where
  "alias_tbl =
     [(''posted date'', ''date''),
      (''transaction date'', ''date''),
      (''details'', ''description''),
      (''memo'', ''description''),
      (''amount (usd)'', ''amount''),
      (''debit'', ''amount''),
      (''credit'', ''amount'')]"

text \<open>
  The loop that fills \<open>mapping\<close>: the new label of a column is a function of its old
  label alone. (\<open>cols\<close> and \<open>rev\<close> are built by the script and never read.)
\<close>

definition mapping_of :: "string \<Rightarrow> string" where
  "mapping_of c_orig =
     (let c_low = strip (lower c_orig)
      in if c_low \<in> set need then c_low
         else (case map_of alias_tbl c_low of Some v \<Rightarrow> v | None \<Rightarrow> c_low))"

definition rename :: "'c frame \<Rightarrow> 'c frame" where
  "rename df = map (\<lambda>(c, xs). (mapping_of c, xs)) df"

text \<open>
  \<open>df[[l1, l2, ...]]\<close>: for each requested label in turn, every column that carries it.
\<close>

definition getitem_list :: "'c frame \<Rightarrow> string list \<Rightarrow> 'c frame" where
  "getitem_list df labels = concat (map (\<lambda>l. filter (\<lambda>col. fst col = l) df) labels)"

text \<open>\<open>df[l]\<close>: the cells of every column labelled \<open>l\<close>; a Series when there is one.\<close>

definition getitem :: "'c frame \<Rightarrow> string \<Rightarrow> 'c list list" where
  "getitem df l = map snd (filter (\<lambda>col. fst col = l) df)"

definition normalize_columns :: "'c frame \<Rightarrow> error + 'c frame" where
  "normalize_columns df0 =
     (let df = rename df0
      in if \<not> set [''date'', ''description'', ''amount''] \<subseteq> set (map fst df)
         then Inl (SystemExit
           ''CSV must include date, description, amount columns (case-insensitive).'')
         else Inr (getitem_list df [''date'', ''description'', ''amount'']))"

subsection \<open>\<open>categorize\<close>\<close>

type_synonym rules = "(string \<times> string list) list"

fun kw_loop :: "string list \<Rightarrow> string \<Rightarrow> bool" where
  "kw_loop [] d = False"
| "kw_loop (kw # keywords) d = (if str_in kw d then True else kw_loop keywords d)"

fun rules_loop :: "rules \<Rightarrow> string \<Rightarrow> string option" where
  "rules_loop [] d = None"
| "rules_loop ((cat, keywords) # rest) d =
     (if kw_loop keywords d then Some cat else rules_loop rest d)"

definition categorize :: "string \<Rightarrow> rules \<Rightarrow> string" where
  "categorize desc rules =
     (let d = lower desc
      in case rules_loop rules d of Some cat \<Rightarrow> cat | None \<Rightarrow> ''uncategorized'')"

text \<open>The rule set embedded in \<open>main\<close>, as the YAML loader returns it.\<close>

definition default_categories :: rules where
  "default_categories =
     [(''groceries'', [''kroger'', ''whole foods'', ''trader joe'', ''walmart'', ''costco'']),
      (''dining'', [''mcdonald'', ''chipotle'', ''starbucks'', ''taco bell'', ''pizza'', ''panera'']),
      (''transport'', [''uber'', ''lyft'', ''shell'', ''exxon'', ''chevron'', ''mobil'', ''gas'']),
      (''shopping'', [''amazon'', ''target'', ''best buy'', ''nike'', ''adidas'']),
      (''subscriptions'', [''netflix'', ''spotify'', ''apple'', ''google storage'', ''prime'']),
      (''utilities'', [''verizon'', ''xfinity'', ''comcast'', ''at&t'', ''t-mobile'', ''spectrum'']),
      (''health'', [''cvs'', ''walgreens'', ''rite aid'', ''walgreens'']),
      (''education'', [''udemy'', ''coursera'', ''khan academy'']),
      (''income'', [''payroll'', ''paycheck'', ''direct deposit'', ''employer''])]"

subsection \<open>Rows, \<open>month_filter\<close>\<close>

text \<open>The calendar date of a pandas timestamp; the time of day plays no role below.\<close>

record timestamp =
  ts_year :: nat
  ts_month :: nat
  ts_day :: nat

definition digit :: "nat \<Rightarrow> char" where
  "digit n = char_of (48 + n mod 10)"

text \<open>\<open>strftime("%Y-%m")\<close>; pandas timestamps have four-digit years.\<close>

definition strftime_Ym :: "timestamp \<Rightarrow> string" where
  "strftime_Ym t =
     [digit (ts_year t div 1000), digit (ts_year t div 100), digit (ts_year t div 10),
      digit (ts_year t), CHR ''-'', digit (ts_month t div 10), digit (ts_month t)]"

record 'n txn =
  date :: timestamp
  description :: string
  amount :: 'n
  category :: string
  type :: string

text \<open>Truth value of \<open>args.month\<close>: \<open>None\<close> and the empty string are false.\<close>

fun truthy :: "string option \<Rightarrow> bool" where
  "truthy None = False"
| "truthy (Some m) = (m \<noteq> [])"

fun month_filter :: "'n txn list \<Rightarrow> string option \<Rightarrow> 'n txn list" where
  "month_filter df None = df"
| "month_filter df (Some month) =
     (if month = [] then df else filter (\<lambda>r. strftime_Ym (date r) = month) df)"

subsection \<open>\<open>main\<close>\<close>

record args =
  month :: "string option"
  invert :: bool

record 'c pandas =
  to_datetime :: "'c list \<Rightarrow> nat \<Rightarrow> timestamp option"
  to_numeric :: "'c list \<Rightarrow> nat \<Rightarrow> rat option"
  astype_str :: "'c \<Rightarrow> string"
  sort_values :: "(string \<times> rat) list \<Rightarrow> (string \<times> rat) list"

text \<open>
  \<open>to_datetime lib col i\<close> is entry \<open>i\<close> of \<open>pd.to_datetime(col, errors="coerce")\<close>,
  \<open>None\<close> for \<open>NaT\<close>: an entry may depend on the whole column, since pandas infers one
  format for it. \<open>to_numeric\<close> likewise, \<open>None\<close> for \<open>NaN\<close>. \<open>sort_values lib s\<close> is
  \<open>s.sort_values()\<close>, the entries of \<open>s\<close> in ascending order of value; the order it
  gives entries of equal value is pandas' own.
\<close>

text \<open>A pandas function on a column, entry by entry.\<close>

definition series_map :: "('c list \<Rightarrow> nat \<Rightarrow> 'a) \<Rightarrow> 'c list \<Rightarrow> 'a list" where
  "series_map f col = map (f col) [0..<length col]"

text \<open>
  Line 105, \<open>-df["amount"]\<close>: the negation of the column's own type, entry by entry.
\<close>

definition invert_amounts :: "'n::uminus list \<Rightarrow> 'n list" where
  "invert_amounts amounts = map (\<lambda>x. - x) amounts"

definition type_of :: "rat \<Rightarrow> string" where
  "type_of x = (if x > 0 then ''income'' else if x < 0 then ''expense'' else ''neutral'')"


text \<open>
  Lines 93 to 111 of the script: normalisation, coercion of the three columns, inversion,
  category and type. Where \<open>df[l]\<close> is not a single column, the pandas call on it raises:
  \<open>to_datetime\<close> a \<open>ValueError\<close>, the \<open>.str\<close> accessor an \<open>AttributeError\<close>,
  \<open>to_numeric\<close> a \<open>TypeError\<close>.
\<close>

definition prepare ::
  "'c pandas \<Rightarrow> args \<Rightarrow> rules \<Rightarrow> 'c frame \<Rightarrow> error + rat txn list" where
  "prepare lib a cat_rules df0 =
     (case normalize_columns df0 of
        Inl e \<Rightarrow> Inl e
      | Inr df \<Rightarrow>
         (case getitem df ''date'' of
            [dcol] \<Rightarrow>
              (case those (series_map (to_datetime lib) dcol) of
                 None \<Rightarrow> Inl (SystemExit
                   ''Some dates could not be parsed. Please ensure 'date' column is valid.'')
               | Some dates \<Rightarrow>
                  (case getitem df ''description'' of
                     [scol] \<Rightarrow>
                       (let descs = map (\<lambda>x. strip (astype_str lib x)) scol
                        in case getitem df ''amount'' of
                             [acol] \<Rightarrow>
                               (case those (series_map (to_numeric lib) acol) of
                                  None \<Rightarrow> Inl (SystemExit
                                    ''Some amounts could not be parsed as numbers.'')
                                | Some parsed \<Rightarrow>
                                    (let amounts =
                                       (if invert a then invert_amounts parsed else parsed)
                                     in Inr (map (\<lambda>(d, s, x).
                                          \<lparr>date = d, description = s, amount = x,
                                           category = categorize s cat_rules,
                                           type = type_of x\<rparr>)
                                          (zip dates (zip descs amounts)))))
                           | _ \<Rightarrow> Inl (Uncaught TypeError))
                   | _ \<Rightarrow> Inl (Uncaught AttributeError)))
          | _ \<Rightarrow> Inl (Uncaught ValueError)))"

text \<open>\<open>groupby("category")["amount"].sum()\<close>: one entry per category, in label order.\<close>

definition groupby_sum :: "rat txn list \<Rightarrow> (string \<times> rat) list" where
  "groupby_sum df =
     map (\<lambda>c. (c, sum_list (map amount (filter (\<lambda>r. category r = c) df))))
       (sort (remdups (map category df)))"

text \<open>
  Lines 120 and 121: the sum of the amounts of the income rows, and the negated sum of the
  amounts of the expense rows, in the arithmetic of the column's type.
\<close>

definition total_income_of :: "'n::monoid_add txn list \<Rightarrow> 'n" where
  "total_income_of df = sum_list (map amount (filter (\<lambda>r. type r = ''income'') df))"

definition total_expense_of :: "'n::ab_group_add txn list \<Rightarrow> 'n" where
  "total_expense_of df = - sum_list (map amount (filter (\<lambda>r. type r = ''expense'') df))"

text \<open>
  Division, partial so that the guard in front of it can be checked: \<open>None\<close> is a
  division evaluated at divisor zero.
\<close>

definition true_div :: "rat \<Rightarrow> rat \<Rightarrow> rat option" where
  "true_div x y = (if y = 0 then None else Some (x / y))"

record report =
  month_tag :: string
  transactions :: "rat txn list"
  by_cat :: "(string \<times> rat) list"
  expenses_by_cat :: "(string \<times> rat) list"
  total_income :: rat
  total_expense :: rat
  savings :: rat
  savings_rate :: rat

text \<open>Lines 120 to 134: the aggregations and the month tag of the output files.\<close>

definition aggregations ::
  "'c pandas \<Rightarrow> string option \<Rightarrow> rat txn list \<Rightarrow> error + report" where
  "aggregations lib mon df =
     (let income = total_income_of df;
          expense = total_expense_of df;
          sav = income - expense
      in case (if income > 0 then map_option (\<lambda>q. q * 100) (true_div sav income)
               else Some 0) of
           None \<Rightarrow> Inl (Uncaught ZeroDivisionError)
         | Some rate \<Rightarrow>
             Inr \<lparr>month_tag = (if truthy mon then the mon else ''ALL''),
                  transactions = df,
                  by_cat = sort_values lib (groupby_sum df),
                  expenses_by_cat =
                    sort_values lib (map (\<lambda>(c, v). (c, - v))
                      (groupby_sum (filter (\<lambda>r. type r = ''expense'') df))),
                  total_income = income,
                  total_expense = expense,
                  savings = sav,
                  savings_rate = rate\<rparr>)"

definition main :: "'c pandas \<Rightarrow> args \<Rightarrow> rules \<Rightarrow> 'c frame \<Rightarrow> error + report" where
  "main lib a cat_rules df0 =
     (case prepare lib a cat_rules df0 of
        Inl e \<Rightarrow> Inl e
      | Inr df \<Rightarrow>
          if truthy (month a)
          then (let df' = month_filter df (month a)
                in if df' = []
                   then Inl (SystemExit (''No transactions found for '' @ the (month a) @ ''.''))
                   else aggregations lib (month a) df')
          else aggregations lib (month a) df)"

text \<open>The exit status of the process: 0 when the run reaches its end, 1 on any error.\<close>

fun exit_status :: "error + report \<Rightarrow> nat" where
  "exit_status (Inr rep) = 0"
| "exit_status (Inl e) = 1"

subsection \<open>The specification of \<open>categorize\<close>\<close>

text \<open>
  The rule set read as one list of (category, keyword) pairs, in scanning order: the
  categories in the order of the mapping, the keywords of each in the order of its list.
\<close>

definition scan_order :: "rules \<Rightarrow> (string \<times> string) list" where
  "scan_order rules = concat (map (\<lambda>(cat, keywords). map (\<lambda>kw. (cat, kw)) keywords) rules)"

text \<open>
  What the specification says of the categorizer: the category of the first pair whose
  keyword occurs in the lowercased description as a substring (\<^const>\<open>sublist\<close>: some
  text, the keyword, some text), and \<open>uncategorized\<close> when there is no such pair.
\<close>

definition categorize_spec :: "string \<Rightarrow> rules \<Rightarrow> string" where
  "categorize_spec desc rules =
     (case find (\<lambda>(cat, kw). sublist kw (lower desc)) (scan_order rules) of
        Some (cat, kw) \<Rightarrow> cat
      | None \<Rightarrow> ''uncategorized'')"

subsection \<open>An instance of the pandas functions, for running the model\<close>

text \<open>
  Raw cells are the fields of the file as text. Dates are read in the form
  \<open>YYYY-MM-DD\<close>, amounts as an optional sign, digits, and optionally a point and more
  digits; anything else is \<open>NaT\<close> or \<open>NaN\<close>. pandas reads more than that; on the
  columns read here it gives the same values. A column of dates is read only if all of it
  is in the one form. \<open>sort_values\<close> is a sort by value; it is used on tables whose
  values differ, where there is one ascending order.
\<close>

definition digit_val :: "char \<Rightarrow> nat option" where
  "digit_val c =
     (let n = (of_char c :: nat) in if 48 \<le> n \<and> n \<le> 57 then Some (n - 48) else None)"

definition parse_nat :: "string \<Rightarrow> nat option" where
  "parse_nat s =
     (if s = [] then None
      else map_option (foldl (\<lambda>acc d. 10 * acc + d) 0) (those (map digit_val s)))"

definition days_in_month :: "nat \<Rightarrow> nat \<Rightarrow> nat" where
  "days_in_month y m =
     (if m = 2 then (if y mod 4 = 0 \<and> (y mod 100 \<noteq> 0 \<or> y mod 400 = 0) then 29 else 28)
      else if m = 4 \<or> m = 6 \<or> m = 9 \<or> m = 11 then 30 else 31)"

definition parse_iso_date :: "string \<Rightarrow> timestamp option" where
  "parse_iso_date s =
     (if length s = 10 \<and> s ! 4 = CHR ''-'' \<and> s ! 7 = CHR ''-''
      then (case (parse_nat (take 4 s), parse_nat (take 2 (drop 5 s)), parse_nat (drop 8 s)) of
              (Some y, Some m, Some d) \<Rightarrow>
                if 1678 \<le> y \<and> y \<le> 2261 \<and> 1 \<le> m \<and> m \<le> 12 \<and> 1 \<le> d \<and> d \<le> days_in_month y m
                then Some \<lparr>ts_year = y, ts_month = m, ts_day = d\<rparr> else None
            | _ \<Rightarrow> None)
      else None)"

definition parse_unsigned :: "string \<Rightarrow> rat option" where
  "parse_unsigned s =
     (let ip = takeWhile (\<lambda>c. c \<noteq> CHR ''.'') s; rest = dropWhile (\<lambda>c. c \<noteq> CHR ''.'') s
      in case rest of
           [] \<Rightarrow> map_option of_nat (parse_nat ip)
         | _ # fp \<Rightarrow>
            (case (parse_nat ip, parse_nat fp) of
               (Some i, Some f) \<Rightarrow> Some (of_nat i + of_nat f / 10 ^ length fp)
             | _ \<Rightarrow> None))"

fun parse_decimal :: "string \<Rightarrow> rat option" where
  "parse_decimal [] = None"
| "parse_decimal (c # cs) =
     (if c = CHR ''-'' then map_option uminus (parse_unsigned cs)
      else if c = CHR ''+'' then parse_unsigned cs
      else parse_unsigned (c # cs))"

definition csv_pandas :: "string pandas" where
  "csv_pandas =
     \<lparr>to_datetime = (\<lambda>col i.
        if i < length col \<and> list_all (\<lambda>s. parse_iso_date s \<noteq> None) col
        then parse_iso_date (col ! i) else None),
      to_numeric = (\<lambda>col i. if i < length col then parse_decimal (col ! i) else None),
      astype_str = (\<lambda>s. s),
      sort_values = sort_key snd\<rparr>"

text \<open>The two rows of the specification's end-to-end example.\<close>

definition example_frame :: "string frame" where
  "example_frame =
     [(''date'', [''2024-01-05'', ''2024-01-10'']),
      (''description'', [''KROGER'', ''PAYROLL'']),
      (''amount'', [''-50.00'', ''2000.00''])]"

text \<open>A bank export that lists debits and credits in columns of their own.\<close>

definition debit_credit_frame :: "string frame" where
  "debit_credit_frame =
     [(''Date'', [''2024-01-05'', ''2024-01-10'']),
      (''Description'', [''KROGER'', ''PAYROLL'']),
      (''Debit'', [''50.00'', ''0.00'']),
      (''Credit'', [''0.00'', ''2000.00''])]"

text \<open>The example's rows after categorization.\<close>

definition example_rows :: "rat txn list" where
  "example_rows =
     [\<lparr>date = \<lparr>ts_year = 2024, ts_month = 1, ts_day = 5\<rparr>, description = ''KROGER'',
       amount = - 50, category = ''groceries'', type = ''expense''\<rparr>,
      \<lparr>date = \<lparr>ts_year = 2024, ts_month = 1, ts_day = 10\<rparr>, description = ''PAYROLL'',
       amount = 2000, category = ''income'', type = ''income''\<rparr>]"

subsection \<open>The invariant of a categorized row\<close>

text \<open>
  A row carries the category that \<open>categorize\<close> gives its description, and the type that
  the sign of its amount gives.
\<close>

definition labelled :: "rules \<Rightarrow> rat txn \<Rightarrow> bool" where
  "labelled rules r \<longleftrightarrow>
     category r = categorize (description r) rules \<and>
     type r = (if 0 < amount r then ''income'' else if amount r < 0 then ''expense''
               else ''neutral'') \<and>
     (type r = ''income'') = (0 < amount r) \<and>
     (type r = ''expense'') = (amount r < 0) \<and>
     (type r = ''neutral'') = (amount r = 0)"

subsection \<open>Totals of an \<open>int64\<close> column\<close>





section \<open>Properties\<close>

subsection \<open>Substrings and the scan of the rules\<close>

lemma str_in_sublist: "str_in kw d = sublist kw d"
  by (induction d) (simp_all add: sublist_Cons_right)

lemma kw_loop_iff: "kw_loop kws d = (\<exists>kw\<in>set kws. str_in kw d)"
  by (induction kws) auto

lemma find_keywords:
  "map_option fst (find (\<lambda>(cat, kw). sublist kw d) (map (\<lambda>kw. (c, kw)) kws @ rest)) =
     (if kw_loop kws d then Some c
      else map_option fst (find (\<lambda>(cat, kw). sublist kw d) rest))"
  by (induction kws) (auto simp add: str_in_sublist)

lemma rules_loop_find:
  "rules_loop rules d = map_option fst (find (\<lambda>(cat, kw). sublist kw d) (scan_order rules))"
proof (induction rules)
  case Nil
  show ?case by (simp add: scan_order_def)
next
  case (Cons rule rules)
  obtain c kws where rule: "rule = (c, kws)" by (cases rule)
  have "scan_order (rule # rules) = map (\<lambda>kw. (c, kw)) kws @ scan_order rules"
    by (simp add: scan_order_def rule)
  then show ?case
    using Cons.IH by (simp add: rule find_keywords)
qed

lemma categorize_refines: "categorize desc rules = categorize_spec desc rules"
  by (simp add: categorize_def categorize_spec_def rules_loop_find split: option.splits prod.splits)

lemma lower_char_not_upper: "\<not> is_upper_ascii (lower_char c)"
proof -
  have "(of_char c :: nat) < 256" by simp
  then show ?thesis
    by (auto simp add: lower_char_def is_upper_ascii_def Let_def)
qed

lemma lower_not_upper: "c \<in> set (lower s) \<Longrightarrow> \<not> is_upper_ascii c"
  by (auto simp add: lower_def lower_char_not_upper)

lemma upper_keyword_no_match:
  assumes "c \<in> set kw" "is_upper_ascii c"
  shows "\<not> str_in kw (lower desc)"
proof
  assume "str_in kw (lower desc)"
  then have "set kw \<subseteq> set (lower desc)"
    by (simp add: str_in_sublist set_mono_sublist)
  with assms show False
    using lower_not_upper by blast
qed

lemma rules_loop_Some:
  "rules_loop rules d = Some cat \<Longrightarrow>
     \<exists>kws kw. (cat, kws) \<in> set rules \<and> kw \<in> set kws \<and> str_in kw d"
proof (induction rules)
  case Nil
  then show ?case by simp
next
  case (Cons rule rules)
  obtain c kws where rule: "rule = (c, kws)" by (cases rule)
  show ?case
  proof (cases "kw_loop kws d")
    case True
    with Cons.prems rule have "c = cat" by simp
    with True rule show ?thesis
      by (auto simp add: kw_loop_iff)
  next
    case False
    with Cons.prems rule have "rules_loop rules d = Some cat" by simp
    from Cons.IH [OF this] show ?thesis
      by auto
  qed
qed

lemma prepare_rows:
  assumes "prepare lib a rules df0 = Inr rows" "r \<in> set rows"
  shows "category r = categorize (description r) rules \<and> type r = type_of (amount r)"
  using assms unfolding prepare_def
  by (auto simp add: Let_def split: sum.splits list.splits option.splits)

lemma aggregations_Inr:
  "aggregations lib mon df =
     (let income = sum_list (map amount (filter (\<lambda>r. type r = ''income'') df));
          expense = - sum_list (map amount (filter (\<lambda>r. type r = ''expense'') df))
      in Inr \<lparr>month_tag = (if truthy mon then the mon else ''ALL''),
              transactions = df,
              by_cat = sort_values lib (groupby_sum df),
              expenses_by_cat =
                sort_values lib (map (\<lambda>(c, v). (c, - v))
                  (groupby_sum (filter (\<lambda>r. type r = ''expense'') df))),
              total_income = income,
              total_expense = expense,
              savings = income - expense,
              savings_rate =
                (if 0 < income then (income - expense) / income * 100 else 0)\<rparr>)"
  by (simp add: aggregations_def total_income_of_def total_expense_of_def true_div_def Let_def)

lemma main_Inr:
  assumes "main lib a rules df0 = Inr rep"
  shows "\<exists>rows. prepare lib a rules df0 = Inr rows \<and> transactions rep = month_filter rows (month a)
     \<and> aggregations lib (month a) (transactions rep) = Inr rep"
proof -
  obtain rows where p: "prepare lib a rules df0 = Inr rows"
    using assms by (auto simp add: main_def split: sum.splits)
  show ?thesis
  proof (cases "month a")
    case None
    with p assms show ?thesis 
      by (auto simp add: main_def aggregations_Inr Let_def)
  next
    case (Some m)
    with p assms show ?thesis
      by (auto simp add: main_def aggregations_Inr Let_def split: if_splits)
  qed
qed

lemma prepare_no_zero_division: "prepare lib a rules df0 \<noteq> Inl (Uncaught ZeroDivisionError)"
  unfolding prepare_def normalize_columns_def
  by (simp add: Let_def split: sum.splits list.splits option.splits)

lemma type_of_labelled:
  "category r = categorize (description r) rules \<Longrightarrow> type r = type_of (amount r) \<Longrightarrow>
     labelled rules r"
  by (auto simp add: labelled_def type_of_def)

lemma set_month_filter: "set (month_filter df mon) \<subseteq> set df"
  by (cases mon) auto


lemma main_rows:
  assumes "main lib a rules df0 = Inr rep" "r \<in> set (transactions rep)"
  shows "category r = categorize (description r) rules \<and> type r = type_of (amount r)"
proof -
  from main_Inr [OF assms(1)] obtain rows where
    rows: "prepare lib a rules df0 = Inr rows" "transactions rep = month_filter rows (month a)"
    by blast
  with assms(2) have "r \<in> set rows"
    using set_month_filter by fastforce
  with rows(1) show ?thesis
    by (rule prepare_rows)
qed

subsection \<open>Arithmetic of an \<open>int64\<close> column\<close>











subsection \<open>Column normalisation\<close>

text \<open>
  When each of the three canonical labels is the new label of exactly one column, the
  result has exactly the three columns, in the order date, description, amount; so for the
  columns Posted Date, Details, Debit.
\<close>

lemma single_column:
  assumes "length (filter (\<lambda>col. mapping_of (fst col) = l) df0) = 1"
  shows "\<exists>xs. filter (\<lambda>col. fst col = l) (rename df0) = [(l, xs)]"
proof -
  from assms obtain col where col: "filter (\<lambda>col. mapping_of (fst col) = l) df0 = [col]"
    by (auto simp add: length_Suc_conv)
  then have "col \<in> set (filter (\<lambda>col. mapping_of (fst col) = l) df0)"
    by simp
  then have l: "mapping_of (fst col) = l"
    by simp
  have "filter (\<lambda>col. fst col = l) (rename df0) =
      map (\<lambda>(c, xs). (mapping_of c, xs)) (filter (\<lambda>col. mapping_of (fst col) = l) df0)"
    by (simp add: rename_def filter_map comp_def split_def)
  with col l show ?thesis
    by (simp add: split_def)
qed

lemma normalize_columns_unique:
  assumes "\<forall>l\<in>set need. length (filter (\<lambda>col. mapping_of (fst col) = l) df0) = 1"
  shows "\<exists>d s x. normalize_columns df0 =
     Inr [(''date'', d), (''description'', s), (''amount'', x)]"
proof -
  from assms single_column obtain d s x where
    d: "filter (\<lambda>col. fst col = ''date'') (rename df0) = [(''date'', d)]" and
    s: "filter (\<lambda>col. fst col = ''description'') (rename df0) = [(''description'', s)]" and
    x: "filter (\<lambda>col. fst col = ''amount'') (rename df0) = [(''amount'', x)]"
    unfolding need_def by (metis list.set_intros(1,2))
  have "(''date'', d) \<in> set (filter (\<lambda>col. fst col = ''date'') (rename df0))"
    "(''description'', s) \<in> set (filter (\<lambda>col. fst col = ''description'') (rename df0))"
    "(''amount'', x) \<in> set (filter (\<lambda>col. fst col = ''amount'') (rename df0))"
    by (simp_all only: d s x list.set_intros)
  then have "(''date'', d) \<in> set (rename df0)" "(''description'', s) \<in> set (rename df0)"
    "(''amount'', x) \<in> set (rename df0)"
    by simp_all
  then have "''date'' \<in> fst ` set (rename df0)" "''description'' \<in> fst ` set (rename df0)"
    "''amount'' \<in> fst ` set (rename df0)"
    by force+
  then have "normalize_columns df0 =
      Inr (getitem_list (rename df0) [''date'', ''description'', ''amount''])"
    by (simp add: normalize_columns_def Let_def)
  with d s x show ?thesis
    by (simp add: getitem_list_def)
qed

lemma normalize_columns_synonyms:
  "normalize_columns [(''Posted Date'', d), (''Details'', s), (''Debit'', x)] =
     Inr [(''date'', d), (''description'', s), (''amount'', x)]"
proof -
  have "mapping_of ''Posted Date'' = ''date''" "mapping_of ''Details'' = ''description''"
    "mapping_of ''Debit'' = ''amount''"
    by code_simp+
  then show ?thesis
    by (simp add: normalize_columns_def rename_def getitem_list_def)
qed



subsection \<open>The pipeline on the examples\<close>

lemma example_norm: "normalize_columns example_frame = Inr example_frame"
  by code_simp

lemma example_dates:
  "series_map (to_datetime csv_pandas) [''2024-01-05'', ''2024-01-10''] =
     [Some \<lparr>ts_year = 2024, ts_month = 1, ts_day = 5\<rparr>,
      Some \<lparr>ts_year = 2024, ts_month = 1, ts_day = 10\<rparr>]"
proof -
  have "parse_iso_date ''2024-01-05'' = Some \<lparr>ts_year = 2024, ts_month = 1, ts_day = 5\<rparr>"
    and "parse_iso_date ''2024-01-10'' = Some \<lparr>ts_year = 2024, ts_month = 1, ts_day = 10\<rparr>"
    by code_simp+
  then show ?thesis
    by (simp add: series_map_def csv_pandas_def)
qed

lemma example_amounts:
  "series_map (to_numeric csv_pandas) [''-50.00'', ''2000.00''] = [Some (- 50), Some 2000]"
  "series_map (to_numeric csv_pandas) [''50.00'', ''0.00''] = [Some 50, Some 0]"
  "series_map (to_numeric csv_pandas) [''0.00'', ''2000.00''] = [Some 0, Some 2000]"
  by (simp_all add: series_map_def csv_pandas_def parse_unsigned_def parse_nat_def digit_val_def)

lemma example_str: "astype_str csv_pandas s = s"
  by (simp add: csv_pandas_def)

lemma example_strip: "strip ''KROGER'' = ''KROGER''" "strip ''PAYROLL'' = ''PAYROLL''"
  by code_simp+

lemma example_categories:
  "categorize ''KROGER'' default_categories = ''groceries''"
  "categorize ''PAYROLL'' default_categories = ''income''"
  by code_simp+

lemma example_prepare:
  "\<not> invert a \<Longrightarrow> prepare csv_pandas a default_categories example_frame = Inr example_rows"
  unfolding prepare_def example_norm
  by (simp add: example_frame_def getitem_def example_dates example_amounts example_str
      example_strip example_categories type_of_def example_rows_def)

lemma example_Ym:
  "strftime_Ym \<lparr>ts_year = 2024, ts_month = Suc 0, ts_day = d\<rparr> = ''2024-01''"
  by code_simp


lemma debit_credit_norm:
  "normalize_columns debit_credit_frame =
     Inr [(''date'', [''2024-01-05'', ''2024-01-10'']),
          (''description'', [''KROGER'', ''PAYROLL'']),
          (''amount'', [''50.00'', ''0.00'']),
          (''amount'', [''0.00'', ''2000.00''])]"
  by code_simp

lemma debit_credit_prepare:
  "prepare csv_pandas a rules debit_credit_frame = Inl (Uncaught TypeError)"
  unfolding prepare_def debit_credit_norm
  by (simp add: getitem_def example_dates)

subsection \<open>The claims\<close>





text \<open>
  Claim C2. \<open>categorize\<close> agrees with its specification on every description and rule
  set: it returns the category of the first (category, keyword) pair, in scanning order,
  whose keyword is a substring of the lowercased description, and \<open>uncategorized\<close> when
  no keyword is one. Under the rules groceries: [kroger], the description
  \<open>KROGER #123\<close> is categorized groceries.
\<close>
theorem categorize_first_match:
  "categorize desc rules = categorize_spec desc rules
   \<and> ((\<forall>(cat, kw)\<in>set (scan_order rules). \<not> sublist kw (lower desc)) \<longrightarrow>
        categorize desc rules = ''uncategorized'')
   \<and> categorize ''KROGER #123'' [(''groceries'', [''kroger''])] = ''groceries''"
proof (intro conjI impI)
  show "categorize desc rules = categorize_spec desc rules"
    by (rule categorize_refines)
  show "categorize desc rules = ''uncategorized''"
    if "\<forall>(cat, kw)\<in>set (scan_order rules). \<not> sublist kw (lower desc)"
  proof -
    from that have "find (\<lambda>(cat, kw). sublist kw (lower desc)) (scan_order rules) = None"
      by (auto simp add: find_None_iff)
    then show ?thesis
      by (simp add: categorize_refines categorize_spec_def)
  qed
  show "categorize ''KROGER #123'' [(''groceries'', [''kroger''])] = ''groceries''"
    by code_simp
qed

theorem categorize_first_match_witness:
  "categorize ''TARGET'' [(''groceries'', [''kroger''])] = ''uncategorized''
   \<and> categorize_spec ''TARGET'' [(''groceries'', [''kroger''])] = ''uncategorized''"
proof -
  have none: "\<forall>(cat, kw)\<in>set (scan_order [(''groceries'', [''kroger''])]).
      \<not> sublist kw (lower ''TARGET'')"
    by code_simp
  from categorize_first_match [of "''TARGET''" "[(''groceries'', [''kroger''])]"] none
  have eq: "categorize ''TARGET'' [(''groceries'', [''kroger''])] =
      categorize_spec ''TARGET'' [(''groceries'', [''kroger''])]"
    and unc: "categorize ''TARGET'' [(''groceries'', [''kroger''])] = ''uncategorized''"
    by blast+
  show ?thesis
    by (simp add: eq [symmetric] unc)
qed

text \<open>
  Claim C3 says that a table whose normalised labels include date, description and amount
  comes back with exactly these three columns. The code at a table with the columns Date,
  Description, Debit and Credit: debit and credit both become amount, the check passes, and
  the selection returns four columns, two of them labelled amount.
\<close>
theorem normalize_columns_debit_credit:
  "normalize_columns debit_credit_frame =
     Inr [(''date'', [''2024-01-05'', ''2024-01-10'']),
          (''description'', [''KROGER'', ''PAYROLL'']),
          (''amount'', [''50.00'', ''0.00'']),
          (''amount'', [''0.00'', ''2000.00''])]
   \<and> map (\<lambda>col. mapping_of (fst col)) debit_credit_frame =
       [''date'', ''description'', ''amount'', ''amount'']"
proof
  show "normalize_columns debit_credit_frame =
     Inr [(''date'', [''2024-01-05'', ''2024-01-10'']),
          (''description'', [''KROGER'', ''PAYROLL'']),
          (''amount'', [''50.00'', ''0.00'']),
          (''amount'', [''0.00'', ''2000.00''])]"
    by (rule debit_credit_norm)
  show "map (\<lambda>col. mapping_of (fst col)) debit_credit_frame =
       [''date'', ''description'', ''amount'', ''amount'']"
    by code_simp
qed

text \<open>
  Claim C4 says that a run ends with a non-zero status exactly when a canonical column is
  missing, a date or an amount cannot be parsed, or the month requested selects no row. The
  code on the table with the columns Date, Description, Debit and Credit, no month
  requested: the three canonical labels are present, every date parses, every amount of
  both amount columns parses, and the run ends with an uncaught \<open>TypeError\<close>, status 1.
\<close>
theorem main_debit_credit:
  "main csv_pandas \<lparr>month = None, invert = False\<rparr> default_categories debit_credit_frame =
     Inl (Uncaught TypeError)
   \<and> exit_status (main csv_pandas \<lparr>month = None, invert = False\<rparr> default_categories
        debit_credit_frame) = 1
   \<and> set [''date'', ''description'', ''amount''] \<subseteq> set (map fst (rename debit_credit_frame))
   \<and> those (series_map (to_datetime csv_pandas) [''2024-01-05'', ''2024-01-10'']) =
       Some [\<lparr>ts_year = 2024, ts_month = 1, ts_day = 5\<rparr>,
             \<lparr>ts_year = 2024, ts_month = 1, ts_day = 10\<rparr>]
   \<and> those (series_map (to_numeric csv_pandas) [''50.00'', ''0.00'']) = Some [50, 0]
   \<and> those (series_map (to_numeric csv_pandas) [''0.00'', ''2000.00'']) = Some [0, 2000]"
proof (intro conjI)
  show m: "main csv_pandas \<lparr>month = None, invert = False\<rparr> default_categories
      debit_credit_frame = Inl (Uncaught TypeError)"
    by (simp add: main_def debit_credit_prepare)
  show "exit_status (main csv_pandas \<lparr>month = None, invert = False\<rparr> default_categories
        debit_credit_frame) = 1"
    by (simp add: m)
  show "set [''date'', ''description'', ''amount''] \<subseteq> set (map fst (rename debit_credit_frame))"
    by code_simp
qed (simp_all add: example_dates example_amounts)

text \<open>
  Claim C5. \<open>month_filter\<close> returns the table as it is when no month is given (\<open>None\<close>
  or the empty string); given a month, it keeps exactly the rows whose date, formatted as
  year and month, equals the argument, in their order. When the rows of a run are
  prepared and the month given keeps none of them, the run ends with the error
  \<open>No transactions found\<close> and status 1.
\<close>
theorem month_filter_spec:
  "month_filter df None = df
   \<and> month_filter df (Some '''') = df
   \<and> (m \<noteq> '''' \<longrightarrow>
        month_filter df (Some m) = filter (\<lambda>r. strftime_Ym (date r) = m) df
        \<and> set (month_filter df (Some m)) = {r \<in> set df. strftime_Ym (date r) = m})
   \<and> (prepare lib a rules df0 = Inr rows \<and> month a = Some m \<and> m \<noteq> ''''
        \<and> month_filter rows (Some m) = [] \<longrightarrow>
        main lib a rules df0 = Inl (SystemExit (''No transactions found for '' @ m @ ''.''))
        \<and> exit_status (main lib a rules df0) = 1)"
  by (auto simp add: main_def)

theorem month_filter_spec_witness:
  "prepare csv_pandas \<lparr>month = Some ''2024-02'', invert = False\<rparr> default_categories
      example_frame = Inr example_rows
   \<and> month_filter example_rows (Some ''2024-02'') = []
   \<and> month_filter example_rows (Some ''2024-01'') = example_rows
   \<and> main csv_pandas \<lparr>month = Some ''2024-02'', invert = False\<rparr> default_categories
      example_frame = Inl (SystemExit ''No transactions found for 2024-02.'')"
proof -
  have p: "prepare csv_pandas \<lparr>month = Some ''2024-02'', invert = False\<rparr> default_categories
      example_frame = Inr example_rows"
    by (simp add: example_prepare)
  have e: "month_filter example_rows (Some ''2024-02'') = []"
    by (simp add: example_rows_def example_Ym)
  have f: "month_filter example_rows (Some ''2024-01'') = example_rows"
    by (simp add: example_rows_def example_Ym)
  from month_filter_spec [where lib = csv_pandas
      and a = "\<lparr>month = Some ''2024-02'', invert = False\<rparr>" and rules = default_categories
      and ?df0.0 = example_frame and rows = example_rows and m = "''2024-02''"] p e
  have "main csv_pandas \<lparr>month = Some ''2024-02'', invert = False\<rparr> default_categories
      example_frame = Inl (SystemExit (''No transactions found for '' @ ''2024-02'' @ ''.''))"
    by simp
  with p e f show ?thesis by simp
qed

text \<open>
  Claim C6. The aggregation of every table succeeds; its savings rate is savings divided by
  total income times 100 when the total income is positive, and 0 otherwise, so it is 0
  when the income is 0 whatever the expenses are. No run ends in a division by zero.
\<close>
theorem savings_rate_guarded:
  "(\<exists>rep. aggregations lib mon df = Inr rep
      \<and> savings_rate rep =
          (if 0 < total_income rep then savings rep / total_income rep * 100 else 0)
      \<and> (total_income rep = 0 \<longrightarrow> savings_rate rep = 0))
   \<and> main lib a rules df0 \<noteq> Inl (Uncaught ZeroDivisionError)"
proof
  show "\<exists>rep. aggregations lib mon df = Inr rep
      \<and> savings_rate rep =
          (if 0 < total_income rep then savings rep / total_income rep * 100 else 0)
      \<and> (total_income rep = 0 \<longrightarrow> savings_rate rep = 0)"
    by (simp add: aggregations_Inr Let_def)
  show "main lib a rules df0 \<noteq> Inl (Uncaught ZeroDivisionError)"
    using prepare_no_zero_division [of lib a rules df0]
    by (auto simp add: main_def aggregations_Inr Let_def split: sum.splits)
qed

theorem savings_rate_guarded_witness:
  "\<exists>rep. aggregations csv_pandas None [\<lparr>date = \<lparr>ts_year = 2024, ts_month = 1, ts_day = 5\<rparr>,
       description = ''KROGER'', amount = - 50, category = ''groceries'',
       type = ''expense''\<rparr>] = Inr rep
     \<and> total_income rep = 0 \<and> total_expense rep = 50 \<and> savings_rate rep = 0"
proof -
  let ?df = "[\<lparr>date = \<lparr>ts_year = 2024, ts_month = 1, ts_day = 5\<rparr>,
       description = ''KROGER'', amount = - 50, category = ''groceries'',
       type = ''expense''\<rparr>]"
  from savings_rate_guarded [where lib = csv_pandas and mon = None and df = ?df]
  obtain rep where rep: "aggregations csv_pandas None ?df = Inr rep"
    "total_income rep = 0 \<longrightarrow> savings_rate rep = 0"
    by blast
  from rep(1) have "total_income rep = 0" "total_expense rep = 50"
    by (auto simp add: aggregations_Inr)
  with rep show ?thesis by simp
qed




text \<open>
  Claim C8. Every row that leaves the categorization stage, and every row of a run's
  transaction table, carries the category of its description and a type fixed by the sign
  of its amount alone: income exactly when the amount is positive, expense exactly when it
  is negative, neutral exactly when it is zero.
\<close>
theorem rows_labelled:
  "(prepare lib a rules df0 = Inr rows \<longrightarrow> (\<forall>r\<in>set rows. labelled rules r))
   \<and> (main lib a rules df0 = Inr rep \<longrightarrow> (\<forall>r\<in>set (transactions rep). labelled rules r))"
proof (intro conjI impI ballI)
  fix r
  assume "prepare lib a rules df0 = Inr rows" "r \<in> set rows"
  then show "labelled rules r"
    using prepare_rows type_of_labelled by blast
next
  fix r
  assume "main lib a rules df0 = Inr rep" "r \<in> set (transactions rep)"
  then show "labelled rules r"
    using main_rows type_of_labelled by blast
qed

theorem rows_labelled_witness:
  "prepare csv_pandas \<lparr>month = None, invert = False\<rparr> default_categories example_frame =
     Inr example_rows
   \<and> labelled default_categories (example_rows ! 0)
   \<and> labelled default_categories (example_rows ! 1)"
proof -
  have p: "prepare csv_pandas \<lparr>month = None, invert = False\<rparr> default_categories
      example_frame = Inr example_rows"
    by (simp add: example_prepare)
  with rows_labelled [where lib = csv_pandas and a = "\<lparr>month = None, invert = False\<rparr>"
      and rules = default_categories and ?df0.0 = example_frame and rows = example_rows]
  have "\<forall>r\<in>set example_rows. labelled default_categories r"
    by blast
  then have "labelled default_categories (example_rows ! 0)"
    "labelled default_categories (example_rows ! 1)"
    by (simp_all add: example_rows_def)
  with p show ?thesis by simp
qed

text \<open>
  Claim C10. A keyword that contains an uppercase ASCII letter is a substring of no
  lowercased description. If every keyword listed under a category contains such a
  letter, the scan of the rules never returns that category: \<open>categorize\<close> can return
  its label only as the fallback, when the label is \<open>uncategorized\<close>.
\<close>
theorem uppercase_keyword_never_matches:
  "((\<exists>c\<in>set kw. is_upper_ascii c) \<longrightarrow> \<not> str_in kw (lower desc))
   \<and> ((\<forall>(c, kws)\<in>set rules. c = cat \<longrightarrow> (\<forall>kw\<in>set kws. \<exists>ch\<in>set kw. is_upper_ascii ch)) \<longrightarrow>
        rules_loop rules (lower desc) \<noteq> Some cat
        \<and> (cat \<noteq> ''uncategorized'' \<longrightarrow> categorize desc rules \<noteq> cat))"
proof (intro conjI impI)
  assume "\<exists>c\<in>set kw. is_upper_ascii c"
  then show "\<not> str_in kw (lower desc)"
    using upper_keyword_no_match by blast
next
  assume all: "\<forall>(c, kws)\<in>set rules. c = cat \<longrightarrow> (\<forall>kw\<in>set kws. \<exists>ch\<in>set kw. is_upper_ascii ch)"
  show no: "rules_loop rules (lower desc) \<noteq> Some cat"
  proof
    assume "rules_loop rules (lower desc) = Some cat"
    from rules_loop_Some [OF this] obtain kws kw where
      "(cat, kws) \<in> set rules" "kw \<in> set kws" "str_in kw (lower desc)"
      by blast
    with all show False
      using upper_keyword_no_match by fastforce
  qed
  show "categorize desc rules \<noteq> cat" if "cat \<noteq> ''uncategorized''"
    using no that by (auto simp add: categorize_def split: option.splits)
qed

theorem uppercase_keyword_never_matches_witness:
  "(\<exists>c\<in>set ''Kroger''. is_upper_ascii c)
   \<and> \<not> str_in ''Kroger'' (lower ''KROGER #123'')
   \<and> categorize ''KROGER #123'' [(''groceries'', [''Kroger''])] \<noteq> ''groceries''"
proof -
  have up: "\<exists>c\<in>set ''Kroger''. is_upper_ascii c"
    by code_simp
  then have all: "\<forall>(c, kws)\<in>set [(''groceries'', [''Kroger''])].
      c = ''groceries'' \<longrightarrow> (\<forall>kw\<in>set kws. \<exists>ch\<in>set kw. is_upper_ascii ch)"
    by simp
  have ne: "''groceries'' \<noteq> ''uncategorized''"
    by simp
  from uppercase_keyword_never_matches [of "''Kroger''" "''KROGER #123''"
      "[(''groceries'', [''Kroger''])]" "''groceries''"] up all ne
  show ?thesis
    by blast
qed

end
